theory Spec2Isabelle
  imports Complex_Main
begin

section \<open>The bounded event window: \<open>collections.deque(maxlen=20)\<close>\<close>

text \<open>
  \<open>lifespan\<close> (main.py, line 50) creates the window as
  \<^verbatim>\<open>state_ring_buffer: collections.deque[dict] = collections.deque(maxlen=20)\<close>.
  A deque is its items, oldest first, and its optional bound. \<open>append\<close> adds the
  item on the right and then, when the deque is longer than its bound, drops the
  leftmost item (CPython appends first and trims afterwards, so a bound of 0 keeps the
  deque empty). \<open>list(d)\<close>, the snapshot a reader takes, is the items from left to
  right.
\<close>

record 'a deque =
  items :: "'a list"
  maxlen :: "nat option"

definition deque_new :: "nat option \<Rightarrow> 'a deque" where
  "deque_new m = \<lparr>items = [], maxlen = m\<rparr>"

definition deque_append :: "'a deque \<Rightarrow> 'a \<Rightarrow> 'a deque" where
  "deque_append d x =
     (let ys = items d @ [x]
      in d\<lparr>items := (case maxlen d of
                        None \<Rightarrow> ys
                      | Some m \<Rightarrow> if m < length ys then tl ys else ys)\<rparr>)"

definition snapshot :: "'a deque \<Rightarrow> 'a list" where
  "snapshot d = items d"

text \<open>
  An event record is a dictionary (\<open>deque[dict]\<close>): its fields in order, each a name
  with its value. The window as line 50 creates it holds event records.
\<close>

type_synonym event = "(string \<times> string) list"

definition new_state_ring_buffer :: "event deque" where
  "new_state_ring_buffer = deque_new (Some 20)"

text \<open>A sequence of appends, in order, as the listener performs them one message at a time.\<close>

definition appends :: "'a deque \<Rightarrow> 'a list \<Rightarrow> 'a deque" where
  "appends d xs = foldl deque_append d xs"

section \<open>Settings, collaborators and observable effects\<close>

text \<open>
  Modelled from the spec: \<open>AppSettings\<close> (config.py is not under src/). main.py reads
  five of its fields: \<open>store.store_type\<close> and \<open>events.events_type\<close> (compared with
  string literals), \<open>include_challenger_models\<close>, \<open>force_publish_models\<close>, and
  \<open>notify_fd\<close>, "a caller-supplied file descriptor (if configured)": an integer or
  \<open>None\<close>.
\<close>

record store_settings =
  store_type :: string

record events_settings =
  events_type :: string

record app_settings =
  store :: store_settings
  events :: events_settings
  include_challenger_models :: bool
  force_publish_models :: bool
  notify_fd :: "int option"

text \<open>Python exceptions, and a failure: the line of main.py that raised, with the exception.\<close>

datatype exn =
    ValueError string
  | TypeError string
  | OSError string
  | CancelledError
  | Exception string

type_synonym failure = "nat \<times> exn"

text \<open>The values the collaborators hand back are opaque to main.py.\<close>

datatype engine = Engine nat

datatype mqtt_client = MqttClient nat

type_synonym models = "string list"

text \<open>\<open>partial(insert_summary, engine, app_settings.include_challenger_models)\<close>\<close>

datatype insert_summary_partial = Partial_insert_summary engine bool

text \<open>The two coroutines main.py schedules, with their arguments, and the task wrapping one.\<close>

datatype coroutine =
    poll_registry real
  | listen_to_mqtt mqtt_client "event deque" insert_summary_partial

datatype task = Task coroutine

text \<open>The dictionary \<open>lifespan\<close> yields to the serving layer.\<close>

record shared_state =
  state_ring_buffer :: "event deque"
  loaded_models :: models
  database_engine :: engine

text \<open>
  Every effect of main.py on the world outside it, in program order: a call of a
  collaborator is recorded when it is made, whether it then returns or raises.
\<close>

datatype action =
    is_ConstructAppSettings: ConstructAppSettings
  | is_LogInfo: LogInfo string
  | is_LogInfoDump: LogInfoDump app_settings
  | is_CreateTask: CreateTask task
  | is_SetupDb: SetupDb store_settings
  | is_SetupMqttClient: SetupMqttClient events_settings
  | is_LogSystemModels: LogSystemModels bool
  | is_ConnectToMlflow: ConnectToMlflow app_settings
  | is_OsWrite: OsWrite int string
  | is_OsClose: OsClose int
  | is_Yield: Yield shared_state
  | is_TaskCancel: TaskCancel task
  | is_TaskAwait: TaskAwait task
  | is_EngineDispose: EngineDispose engine

text \<open>
  main.py calls its collaborators (\<open>AppSettings\<close>, \<open>setup_db\<close>,
  \<open>setup_mqtt_client\<close>, \<open>log_system_models\<close>, \<open>connect_to_mlflow\<close>,
  \<open>os.write\<close>, \<open>os.close\<close>, awaiting a task, \<open>engine.dispose\<close>) and
  defines none of them: what each call does, returning a value or raising, is a
  parameter. So is what the serving layer does with the suspended generator:
  \<open>serving = None\<close> resumes it at shutdown, \<open>Some e\<close> throws \<open>e\<close> into
  it at the \<open>yield\<close>.
\<close>

record world =
  AppSettings :: "exn + app_settings"
  setup_db :: "store_settings \<Rightarrow> exn + engine"
  setup_mqtt_client :: "events_settings \<Rightarrow> exn + mqtt_client"
  log_system_models :: "bool \<Rightarrow> exn + models"
  connect_to_mlflow :: "app_settings \<Rightarrow> exn + unit"
  os_write :: "int \<Rightarrow> string \<Rightarrow> exn + unit"
  os_close :: "int \<Rightarrow> exn + unit"
  serving :: "exn option"
  await_task :: "task \<Rightarrow> exn + unit"
  engine_dispose :: "engine \<Rightarrow> exn + unit"

text \<open>
  The state main.py threads through: the cache \<open>lru_cache\<close> keeps for
  \<open>get_settings\<close> (one entry, since the function has no arguments), and the trace
  of effects so far.
\<close>

record pystate =
  settings_cache :: "app_settings option"
  trace :: "action list"

definition fresh :: "app_settings option \<Rightarrow> pystate" where
  "fresh c = \<lparr>settings_cache = c, trace = []\<rparr>"

type_synonym 'a py = "pystate \<Rightarrow> (failure + 'a) \<times> pystate"

definition py_return :: "'a \<Rightarrow> 'a py" where
  "py_return x = (\<lambda>s. (Inr x, s))"

definition py_raise :: "nat \<Rightarrow> exn \<Rightarrow> 'a py" where
  "py_raise line e = (\<lambda>s. (Inl (line, e), s))"

definition py_bind :: "'a py \<Rightarrow> ('a \<Rightarrow> 'b py) \<Rightarrow> 'b py" where
  "py_bind m f = (\<lambda>s. case m s of
                        (Inl e, s') \<Rightarrow> (Inl e, s')
                      | (Inr x, s') \<Rightarrow> f x s')"

definition py_effect :: "action \<Rightarrow> unit py" where
  "py_effect a = (\<lambda>s. (Inr (), s\<lparr>trace := trace s @ [a]\<rparr>))"

text \<open>A call at \<open>line\<close>: the effect, then the callee's value or its exception.\<close>

definition py_call :: "nat \<Rightarrow> action \<Rightarrow> exn + 'a \<Rightarrow> 'a py" where
  "py_call line a outcome =
     py_bind (py_effect a) (\<lambda>_. case outcome of
                                   Inl e \<Rightarrow> py_raise line e
                                 | Inr v \<Rightarrow> py_return v)"

text \<open>\<^verbatim>\<open>try: m  except asyncio.CancelledError: pass\<close>\<close>

definition py_except_CancelledError :: "unit py \<Rightarrow> unit py" where
  "py_except_CancelledError m =
     (\<lambda>s. case m s of
             (Inl (line, e), s') \<Rightarrow>
               if e = CancelledError then (Inr (), s') else (Inl (line, e), s')
           | (Inr x, s') \<Rightarrow> (Inr x, s'))"

section \<open>main.py\<close>

text \<open>
  \<^verbatim>\<open>if notification_fd:\<close> tests truthiness: \<open>None\<close> and \<open>0\<close> are false.
  \<open>int(notification_fd)\<close> is the integer itself (and a TypeError on \<open>None\<close>).
\<close>

definition truthy :: "int option \<Rightarrow> bool" where
  "truthy v = (case v of None \<Rightarrow> False | Some n \<Rightarrow> n \<noteq> 0)"

definition py_int :: "nat \<Rightarrow> int option \<Rightarrow> int py" where
  "py_int line v = (case v of
                      None \<Rightarrow> py_raise line (TypeError ''int() argument'')
                    | Some n \<Rightarrow> py_return n)"

definition write_healthcheck_file :: "world \<Rightarrow> app_settings \<Rightarrow> unit py" where
  "write_healthcheck_file w settings =
     (let notification_fd = notify_fd settings
      in if truthy notification_fd
         then py_bind (py_int 31 notification_fd) (\<lambda>fd.
              py_bind (py_call 31 (OsWrite fd [CHR 0x0A]) (os_write w fd [CHR 0x0A])) (\<lambda>_.
              py_bind (py_int 32 notification_fd) (\<lambda>fd.
              py_call 32 (OsClose fd) (os_close w fd))))
         else py_return ())"

text \<open>
  \<^verbatim>\<open>@lru_cache def get_settings(): return AppSettings()\<close>: a hit returns the cached
  value; a miss calls the function and caches what it returns (an exception is not
  cached).
\<close>

definition get_settings :: "world \<Rightarrow> app_settings py" where
  "get_settings w =
     (\<lambda>s. case settings_cache s of
             Some v \<Rightarrow> (Inr v, s)
           | None \<Rightarrow>
               (case py_call 38 ConstructAppSettings (AppSettings w) s of
                  (Inl e, s') \<Rightarrow> (Inl e, s')
                | (Inr v, s') \<Rightarrow> (Inr v, s'\<lparr>settings_cache := Some v\<rparr>)))"

definition create_task :: "coroutine \<Rightarrow> task py" where
  "create_task c = py_bind (py_effect (CreateTask (Task c))) (\<lambda>_. py_return (Task c))"

text \<open>The local variables of \<open>lifespan\<close> that are live while it is suspended at the \<open>yield\<close>.\<close>

record frame =
  local_app_settings :: app_settings
  local_mqtt_listener_task :: task
  local_engine :: engine
  yielded :: shared_state

text \<open>
  \<open>lifespan\<close>, lines 43 to 83: everything up to and including the \<open>yield\<close>,
  statement by statement. (\<open>asyncio.get_event_loop()\<close> at line 65 only names the
  running loop, on which line 67 creates the listener task.)
\<close>

definition lifespan_startup :: "world \<Rightarrow> frame py" where
  "lifespan_startup w =
     py_bind (get_settings w) (\<lambda>app_settings.
     py_bind (py_effect (LogInfo ''Starting mindctrl server with settings:'')) (\<lambda>_.
     py_bind (py_effect (LogInfoDump app_settings)) (\<lambda>_.
     py_bind (create_task (poll_registry 10)) (\<lambda>_.
     let state_ring_buffer = new_state_ring_buffer in
     py_bind (py_effect (LogInfo ''Setting up DB'')) (\<lambda>_.
     if \<not> store_type (store app_settings) = ''psql''
     then py_raise 54 (ValueError (''unknown store type: '' @ store_type (store app_settings)))
     else
     py_bind (py_call 55 (SetupDb (store app_settings))
                (setup_db w (store app_settings))) (\<lambda>engine.
     let insert_summary_partial =
           Partial_insert_summary engine (include_challenger_models app_settings) in
     py_bind (py_effect (LogInfo ''Setting up MQTT'')) (\<lambda>_.
     if \<not> events_type (events app_settings) = ''mqtt''
     then py_raise 62 (ValueError (''unknown events type: '' @ events_type (events app_settings)))
     else
     py_bind (py_call 64 (SetupMqttClient (events app_settings))
                (setup_mqtt_client w (events app_settings))) (\<lambda>mqtt_client.
     py_bind (py_effect (LogInfo ''Starting MQTT listener'')) (\<lambda>_.
     py_bind (create_task
                (listen_to_mqtt mqtt_client state_ring_buffer insert_summary_partial))
       (\<lambda>mqtt_listener_task.
     py_bind (py_effect (LogInfo ''Logging models'')) (\<lambda>_.
     py_bind (py_call 72 (LogSystemModels (force_publish_models app_settings))
                (log_system_models w (force_publish_models app_settings))) (\<lambda>loaded_models.
     py_bind (py_call 73 (ConnectToMlflow app_settings)
                (connect_to_mlflow w app_settings)) (\<lambda>_.
     py_bind (write_healthcheck_file w app_settings) (\<lambda>_.
     py_bind (py_effect (LogInfo ''Finished server setup'')) (\<lambda>_.
     let state = \<lparr>state_ring_buffer = state_ring_buffer,
                  loaded_models = loaded_models,
                  database_engine = engine\<rparr> in
     py_bind (py_effect (Yield state)) (\<lambda>_.
     py_return \<lparr>local_app_settings = app_settings,
                local_mqtt_listener_task = mqtt_listener_task,
                local_engine = engine,
                yielded = state\<rparr>))))))))))))))))"

text \<open>\<open>lifespan\<close>, lines 85 to 92: the code after the \<open>yield\<close>.\<close>

definition lifespan_shutdown :: "world \<Rightarrow> frame \<Rightarrow> unit py" where
  "lifespan_shutdown w fr =
     py_bind (py_effect (TaskCancel (local_mqtt_listener_task fr))) (\<lambda>_.
     py_bind (py_except_CancelledError
                (py_call 89 (TaskAwait (local_mqtt_listener_task fr))
                   (await_task w (local_mqtt_listener_task fr)))) (\<lambda>_.
     py_call 92 (EngineDispose (local_engine fr)) (engine_dispose w (local_engine fr))))"

text \<open>
  The whole generator: startup, the \<open>yield\<close> (where an exception thrown in by the
  serving layer propagates, there being no \<open>try\<close> around it), and the shutdown code.
\<close>

definition lifespan :: "world \<Rightarrow> unit py" where
  "lifespan w =
     py_bind (lifespan_startup w) (\<lambda>fr.
       case serving w of
         Some e \<Rightarrow> py_raise 79 e
       | None \<Rightarrow> lifespan_shutdown w fr)"

section \<open>Repeated calls, observers of a trace, and concrete worlds\<close>


text \<open>The values returned among the results of calls.\<close>

fun returned :: "(failure + 'a) list \<Rightarrow> 'a list" where
  "returned [] = []"
| "returned (Inl e # rs) = returned rs"
| "returned (Inr v # rs) = v # returned rs"

text \<open>Calls that acquire a resource: the storage engine and the event-bus client.\<close>

definition is_acquisition :: "action \<Rightarrow> bool" where
  "is_acquisition a = (is_SetupDb a \<or> is_SetupMqttClient a)"

text \<open>The steps whose order the lifecycle fixes: acquiring storage, starting a task, publishing.\<close>

definition is_lifecycle_step :: "action \<Rightarrow> bool" where
  "is_lifecycle_step a = (is_SetupDb a \<or> is_CreateTask a \<or> is_Yield a)"

definition is_os_action :: "action \<Rightarrow> bool" where
  "is_os_action a = (is_OsWrite a \<or> is_OsClose a)"

text \<open>The collaborator calls of startup that come before the readiness signal.\<close>

definition is_startup_call :: "action \<Rightarrow> bool" where
  "is_startup_call a =
     (is_CreateTask a \<or> is_SetupDb a \<or> is_SetupMqttClient a
      \<or> is_LogSystemModels a \<or> is_ConnectToMlflow a)"

fun is_poll_registry :: "task \<Rightarrow> bool" where
  "is_poll_registry (Task (poll_registry interval)) = True"
| "is_poll_registry (Task (listen_to_mqtt client buffer writer)) = False"

text \<open>What is done to a task: it is created, cancelled or awaited.\<close>

fun task_of :: "action \<Rightarrow> task option" where
  "task_of (CreateTask t) = Some t"
| "task_of (TaskCancel t) = Some t"
| "task_of (TaskAwait t) = Some t"
| "task_of a = None"

definition on_poller :: "action \<Rightarrow> bool" where
  "on_poller a = (case task_of a of None \<Rightarrow> False | Some t \<Rightarrow> is_poll_registry t)"

definition is_cancel_or_await :: "action \<Rightarrow> bool" where
  "is_cancel_or_await a = (is_TaskCancel a \<or> is_TaskAwait a)"

text \<open>
  A world in which every collaborator returns, the settings name the supported kinds
  and descriptor 3 is the notification descriptor; and variations of it.
\<close>

definition settings_ok :: app_settings where
  "settings_ok =
     \<lparr>store = \<lparr>store_type = ''psql''\<rparr>, events = \<lparr>events_type = ''mqtt''\<rparr>,
      include_challenger_models = True, force_publish_models = False,
      notify_fd = Some 3\<rparr>"

definition world_ok :: world where
  "world_ok =
     \<lparr>AppSettings = Inr settings_ok,
      setup_db = (\<lambda>st. Inr (Engine 1)),
      setup_mqtt_client = (\<lambda>ev. Inr (MqttClient 1)),
      log_system_models = (\<lambda>force. Inr [''chat'']),
      connect_to_mlflow = (\<lambda>settings. Inr ()),
      os_write = (\<lambda>fd bytes. Inr ()),
      os_close = (\<lambda>fd. Inr ()),
      serving = None,
      await_task = (\<lambda>t. Inl CancelledError),
      engine_dispose = (\<lambda>e. Inr ())\<rparr>"

definition world_with :: "app_settings \<Rightarrow> world" where
  "world_with settings = world_ok\<lparr>AppSettings := Inr settings\<rparr>"

definition settings_sqlite :: app_settings where
  "settings_sqlite = settings_ok\<lparr>store := \<lparr>store_type = ''sqlite''\<rparr>\<rparr>"

definition settings_kafka :: app_settings where
  "settings_kafka = settings_ok\<lparr>events := \<lparr>events_type = ''kafka''\<rparr>\<rparr>"

definition settings_fd0 :: app_settings where
  "settings_fd0 = settings_ok\<lparr>notify_fd := Some 0\<rparr>"

definition settings_no_fd :: app_settings where
  "settings_no_fd = settings_ok\<lparr>notify_fd := None\<rparr>"

definition world_db_down :: world where
  "world_db_down = world_ok\<lparr>setup_db := (\<lambda>st. Inl (OSError ''connection refused''))\<rparr>"

text \<open>
  The listener ended before shutdown: by returning, or by raising an exception of its
  own, which awaiting the task raises again.
\<close>

definition world_listener_returned :: world where
  "world_listener_returned = world_ok\<lparr>await_task := (\<lambda>t. Inr ())\<rparr>"

definition world_listener_crashed :: world where
  "world_listener_crashed =
     world_ok\<lparr>await_task := (\<lambda>t. Inl (Exception ''connection lost''))\<rparr>"

definition world_invalid_env :: world where
  "world_invalid_env =
     world_ok\<lparr>AppSettings := Inl (ValueError ''1 validation error for AppSettings'')\<rparr>"

section \<open>Properties of the window\<close>

lemma maxlen_deque_append: "maxlen (deque_append d x) = maxlen d"
  by (simp add: deque_append_def Let_def)

lemma maxlen_appends: "maxlen (appends d xs) = maxlen d"
  unfolding appends_def
  by (induction xs arbitrary: d) (simp_all add: maxlen_deque_append)

lemma appends_snoc: "appends d (xs @ [x]) = deque_append (appends d xs) x"
  by (simp add: appends_def)

lemma tl_drop_snoc:
  "k \<le> length xs \<Longrightarrow> tl (drop k xs @ [x]) = drop (Suc k) (xs @ [x])"
proof -
  assume k: "k \<le> length xs"
  have "drop (Suc k) (xs @ [x]) = tl (drop k (xs @ [x]))"
    by (simp only: drop_Suc drop_tl)
  also from k have "drop k (xs @ [x]) = drop k xs @ [x]"
    by simp
  finally show ?thesis by simp
qed

lemma items_appends_bounded:
  "items (appends (deque_new (Some c)) xs) = drop (length xs - c) xs"
proof (induction xs rule: rev_induct)
  case Nil
  show ?case by (simp add: appends_def deque_new_def)
next
  case (snoc x xs)
  have m: "maxlen (appends (deque_new (Some c)) xs) = Some c"
    by (simp add: maxlen_appends deque_new_def)
  show ?case
  proof (cases "length xs < c")
    case True
    with snoc m show ?thesis
      by (simp add: appends_snoc deque_append_def Let_def)
  next
    case False
    then have s: "Suc (length xs) - c = Suc (length xs - c)"
      by simp
    from False have "c < length (drop (length xs - c) xs @ [x])"
      by simp
    with snoc m have "items (appends (deque_new (Some c)) (xs @ [x]))
        = tl (drop (length xs - c) xs @ [x])"
      by (simp add: appends_snoc deque_append_def Let_def)
    also have "\<dots> = drop (Suc (length xs - c)) (xs @ [x])"
      by (rule tl_drop_snoc) simp
    finally show ?thesis using s by simp
  qed
qed

text \<open>
  C1. After any sequence \<open>xs\<close> of N appends to the window of capacity 20, the snapshot
  has length min(N, 20) and is the last min(N, 20) appended records in append order,
  the oldest first. Appending one more record \<open>x\<close> to a window that holds 20 records
  drops exactly the oldest one and keeps the others in their order, with \<open>x\<close> last.
\<close>

theorem window_keeps_last_20:
  "length (snapshot (appends new_state_ring_buffer xs)) = min (length xs) 20
   \<and> snapshot (appends new_state_ring_buffer xs)
       = drop (length xs - min (length xs) 20) xs
   \<and> (length (snapshot (appends new_state_ring_buffer xs)) = 20 \<longrightarrow>
        snapshot (deque_append (appends new_state_ring_buffer xs) x)
          = tl (snapshot (appends new_state_ring_buffer xs)) @ [x])"
proof -
  let ?d = "appends new_state_ring_buffer xs"
  have it: "items ?d = drop (length xs - 20) xs"
    by (simp add: new_state_ring_buffer_def items_appends_bounded)
  have ml: "maxlen ?d = Some 20"
    by (simp add: maxlen_appends new_state_ring_buffer_def deque_new_def)
  have "length xs - min (length xs) 20 = length xs - 20"
    by simp
  with it have a: "snapshot ?d = drop (length xs - min (length xs) 20) xs"
    by (simp add: snapshot_def)
  from it have b: "length (snapshot ?d) = min (length xs) 20"
    by (simp add: snapshot_def)
  have c: "length (snapshot ?d) = 20 \<longrightarrow>
           snapshot (deque_append ?d x) = tl (snapshot ?d) @ [x]"
    using ml by (cases "items ?d") (auto simp: snapshot_def deque_append_def Let_def)
  from a b c show ?thesis by blast
qed

theorem window_keeps_last_20_witness:
  "length (snapshot (appends new_state_ring_buffer
      (map (\<lambda>n. [(''seq'', n)])
         [''01'', ''02'', ''03'', ''04'', ''05'', ''06'', ''07'', ''08'', ''09'', ''10'',
          ''11'', ''12'', ''13'', ''14'', ''15'', ''16'', ''17'', ''18'', ''19'', ''20'', ''21'']))) = 20
   \<and> snapshot (deque_append (appends new_state_ring_buffer
      (map (\<lambda>n. [(''seq'', n)])
         [''01'', ''02'', ''03'', ''04'', ''05'', ''06'', ''07'', ''08'', ''09'', ''10'',
          ''11'', ''12'', ''13'', ''14'', ''15'', ''16'', ''17'', ''18'', ''19'', ''20'', ''21''])) [(''seq'', ''22'')])
     = map (\<lambda>n. [(''seq'', n)])
         [''03'', ''04'', ''05'', ''06'', ''07'', ''08'', ''09'', ''10'',
          ''11'', ''12'', ''13'', ''14'', ''15'', ''16'', ''17'', ''18'', ''19'', ''20'', ''21'', ''22'']"
proof -
  let ?xs = "map (\<lambda>n. [(''seq'', n)])
         [''01'', ''02'', ''03'', ''04'', ''05'', ''06'', ''07'', ''08'', ''09'', ''10'',
          ''11'', ''12'', ''13'', ''14'', ''15'', ''16'', ''17'', ''18'', ''19'', ''20'', ''21'']"
  note w = window_keeps_last_20 [of ?xs "[(''seq'', ''22'')]"]
  from w have len: "length (snapshot (appends new_state_ring_buffer ?xs)) = 20"
    by simp
  from w have snap: "snapshot (appends new_state_ring_buffer ?xs) = drop 1 ?xs"
    by simp
  from w len have "snapshot (deque_append (appends new_state_ring_buffer ?xs) [(''seq'', ''22'')])
      = tl (snapshot (appends new_state_ring_buffer ?xs)) @ [[(''seq'', ''22'')]]"
    by blast
  with snap len show ?thesis by simp
qed

section \<open>Running \<open>lifespan\<close>: one case per path through the startup code\<close>

text \<open>
  Once the settings are at hand, startup ends in one of ten ways: at one of the two
  \<open>raise\<close> statements, at a collaborator that raises, at \<open>os.write\<close> or
  \<open>os.close\<close> raising, or at the \<open>yield\<close> (with or without the readiness
  signal). Each case gives the conditions of its path, the result and the trace.
\<close>

lemmas run_simps = py_bind_def py_return_def py_raise_def py_effect_def py_call_def
  create_task_def write_healthcheck_file_def py_int_def truthy_def Let_def

lemma lifespan_startup_cases:
  fixes app :: app_settings
    and T1 T2 T4 :: "action list"
    and listener :: "engine \<Rightarrow> mqtt_client \<Rightarrow> task"
    and T3 :: "engine \<Rightarrow> mqtt_client \<Rightarrow> action list"
    and state :: "engine \<Rightarrow> models \<Rightarrow> shared_state"
    and fr :: "engine \<Rightarrow> mqtt_client \<Rightarrow> models \<Rightarrow> frame"
    and T5 :: "engine \<Rightarrow> models \<Rightarrow> action list"
  defines "T1 \<equiv> [LogInfo ''Starting mindctrl server with settings:'', LogInfoDump app,
                 CreateTask (Task (poll_registry 10)), LogInfo ''Setting up DB'']"
      and "T2 \<equiv> [SetupDb (store app), LogInfo ''Setting up MQTT'']"
      and "listener \<equiv> (\<lambda>eng cl. Task (listen_to_mqtt cl new_state_ring_buffer
                 (Partial_insert_summary eng (include_challenger_models app))))"
      and "T3 \<equiv> (\<lambda>eng cl. [SetupMqttClient (events app), LogInfo ''Starting MQTT listener'',
                 CreateTask (listener eng cl), LogInfo ''Logging models'',
                 LogSystemModels (force_publish_models app)])"
      and "T4 \<equiv> [ConnectToMlflow app]"
      and "state \<equiv> (\<lambda>eng ms. \<lparr>state_ring_buffer = new_state_ring_buffer,
                 loaded_models = ms, database_engine = eng\<rparr>)"
      and "fr \<equiv> (\<lambda>eng cl ms. \<lparr>local_app_settings = app,
                 local_mqtt_listener_task = listener eng cl,
                 local_engine = eng, yielded = state eng ms\<rparr>)"
      and "T5 \<equiv> (\<lambda>eng ms. [LogInfo ''Finished server setup'', Yield (state eng ms)])"
  assumes gs: "get_settings w s = (Inr app, s0)"
  obtains
    (unknown_store)
      "store_type (store app) \<noteq> ''psql''"
      "lifespan_startup w s =
         (Inl (54, ValueError (''unknown store type: '' @ store_type (store app))),
          s0\<lparr>trace := trace s0 @ T1\<rparr>)"
  | (setup_db_raised) e where
      "store_type (store app) = ''psql''"
      "setup_db w (store app) = Inl e"
      "lifespan_startup w s =
         (Inl (55, e), s0\<lparr>trace := trace s0 @ T1 @ [SetupDb (store app)]\<rparr>)"
  | (unknown_events) eng where
      "store_type (store app) = ''psql''"
      "setup_db w (store app) = Inr eng"
      "events_type (events app) \<noteq> ''mqtt''"
      "lifespan_startup w s =
         (Inl (62, ValueError (''unknown events type: '' @ events_type (events app))),
          s0\<lparr>trace := trace s0 @ T1 @ T2\<rparr>)"
  | (setup_mqtt_client_raised) eng e where
      "store_type (store app) = ''psql''"
      "setup_db w (store app) = Inr eng"
      "events_type (events app) = ''mqtt''"
      "setup_mqtt_client w (events app) = Inl e"
      "lifespan_startup w s =
         (Inl (64, e), s0\<lparr>trace := trace s0 @ T1 @ T2 @ [SetupMqttClient (events app)]\<rparr>)"
  | (log_system_models_raised) eng cl e where
      "store_type (store app) = ''psql''"
      "setup_db w (store app) = Inr eng"
      "events_type (events app) = ''mqtt''"
      "setup_mqtt_client w (events app) = Inr cl"
      "log_system_models w (force_publish_models app) = Inl e"
      "lifespan_startup w s =
         (Inl (72, e), s0\<lparr>trace := trace s0 @ T1 @ T2 @ T3 eng cl\<rparr>)"
  | (connect_to_mlflow_raised) eng cl ms e where
      "store_type (store app) = ''psql''"
      "setup_db w (store app) = Inr eng"
      "events_type (events app) = ''mqtt''"
      "setup_mqtt_client w (events app) = Inr cl"
      "log_system_models w (force_publish_models app) = Inr ms"
      "connect_to_mlflow w app = Inl e"
      "lifespan_startup w s =
         (Inl (73, e), s0\<lparr>trace := trace s0 @ T1 @ T2 @ T3 eng cl @ T4\<rparr>)"
  | (os_write_raised) eng cl ms fd e where
      "store_type (store app) = ''psql''"
      "setup_db w (store app) = Inr eng"
      "events_type (events app) = ''mqtt''"
      "setup_mqtt_client w (events app) = Inr cl"
      "log_system_models w (force_publish_models app) = Inr ms"
      "connect_to_mlflow w app = Inr ()"
      "notify_fd app = Some fd" "fd \<noteq> 0"
      "os_write w fd [CHR 0x0A] = Inl e"
      "lifespan_startup w s =
         (Inl (31, e),
          s0\<lparr>trace := trace s0 @ T1 @ T2 @ T3 eng cl @ T4 @ [OsWrite fd [CHR 0x0A]]\<rparr>)"
  | (os_close_raised) eng cl ms fd e where
      "store_type (store app) = ''psql''"
      "setup_db w (store app) = Inr eng"
      "events_type (events app) = ''mqtt''"
      "setup_mqtt_client w (events app) = Inr cl"
      "log_system_models w (force_publish_models app) = Inr ms"
      "connect_to_mlflow w app = Inr ()"
      "notify_fd app = Some fd" "fd \<noteq> 0"
      "os_write w fd [CHR 0x0A] = Inr ()"
      "os_close w fd = Inl e"
      "lifespan_startup w s =
         (Inl (32, e),
          s0\<lparr>trace := trace s0 @ T1 @ T2 @ T3 eng cl @ T4
                   @ [OsWrite fd [CHR 0x0A], OsClose fd]\<rparr>)"
  | (started_notified) eng cl ms fd where
      "store_type (store app) = ''psql''"
      "setup_db w (store app) = Inr eng"
      "events_type (events app) = ''mqtt''"
      "setup_mqtt_client w (events app) = Inr cl"
      "log_system_models w (force_publish_models app) = Inr ms"
      "connect_to_mlflow w app = Inr ()"
      "notify_fd app = Some fd" "fd \<noteq> 0"
      "os_write w fd [CHR 0x0A] = Inr ()"
      "os_close w fd = Inr ()"
      "lifespan_startup w s =
         (Inr (fr eng cl ms),
          s0\<lparr>trace := trace s0 @ T1 @ T2 @ T3 eng cl @ T4
                   @ [OsWrite fd [CHR 0x0A], OsClose fd] @ T5 eng ms\<rparr>)"
  | (started_silent) eng cl ms where
      "store_type (store app) = ''psql''"
      "setup_db w (store app) = Inr eng"
      "events_type (events app) = ''mqtt''"
      "setup_mqtt_client w (events app) = Inr cl"
      "log_system_models w (force_publish_models app) = Inr ms"
      "connect_to_mlflow w app = Inr ()"
      "\<not> truthy (notify_fd app)"
      "lifespan_startup w s =
         (Inr (fr eng cl ms), s0\<lparr>trace := trace s0 @ T1 @ T2 @ T3 eng cl @ T4 @ T5 eng ms\<rparr>)"
proof -
  note defs = T1_def T2_def T3_def T4_def T5_def listener_def state_def fr_def
  note run = gs lifespan_startup_def run_simps
  show ?thesis
  proof (cases "store_type (store app) = ''psql''")
    case False
    show ?thesis
      by (rule unknown_store) (simp_all add: False run defs)
  next
    case psql: True
    show ?thesis
    proof (cases "setup_db w (store app)")
      case (Inl e)
      show ?thesis
        by (rule setup_db_raised[of e]) (simp_all add: psql Inl run defs)
    next
      case db: (Inr eng)
      show ?thesis
      proof (cases "events_type (events app) = ''mqtt''")
        case False
        show ?thesis
          by (rule unknown_events[of eng]) (simp_all add: psql db False run defs)
      next
        case mqtt: True
        show ?thesis
        proof (cases "setup_mqtt_client w (events app)")
          case (Inl e)
          show ?thesis
            by (rule setup_mqtt_client_raised[of eng e]) (simp_all add: psql db mqtt Inl run defs)
        next
          case client: (Inr cl)
          show ?thesis
          proof (cases "log_system_models w (force_publish_models app)")
            case (Inl e)
            show ?thesis
              by (rule log_system_models_raised[of eng cl e])
                (simp_all add: psql db mqtt client Inl run defs)
          next
            case models: (Inr ms)
            show ?thesis
            proof (cases "connect_to_mlflow w app")
              case (Inl e)
              show ?thesis
                by (rule connect_to_mlflow_raised[of eng cl ms e])
                  (simp_all add: psql db mqtt client models Inl run defs)
            next
              case (Inr u)
              then have mlflow: "connect_to_mlflow w app = Inr ()" by simp
              note path = psql db mqtt client models mlflow
              show ?thesis
              proof (cases "truthy (notify_fd app)")
                case False
                show ?thesis
                  by (rule started_silent[of eng cl ms]) (use False in \<open>simp_all add: path run defs\<close>)
              next
                case True
                then obtain fd where fd: "notify_fd app = Some fd" "fd \<noteq> 0"
                  by (auto simp: truthy_def split: option.splits)
                show ?thesis
                proof (cases "os_write w fd [CHR 0x0A]")
                  case (Inl e)
                  show ?thesis
                    by (rule os_write_raised[of eng cl ms fd e])
                      (simp_all add: path fd Inl run defs)
                next
                  case (Inr u)
                  then have wr: "os_write w fd [CHR 0x0A] = Inr ()" by simp
                  show ?thesis
                  proof (cases "os_close w fd")
                    case (Inl e)
                    show ?thesis
                      by (rule os_close_raised[of eng cl ms fd e])
                        (simp_all add: path fd wr Inl run defs)
                  next
                    case (Inr u')
                    then have closed: "os_close w fd = Inr ()" by simp
                    show ?thesis
                      by (rule started_notified[of eng cl ms fd])
                        (simp_all add: path fd wr closed run defs)
                  qed
                qed
              qed
            qed
          qed
        qed
      qed
    qed
  qed
qed

text \<open>The cache, the code after the \<open>yield\<close>, and the generator as a whole.\<close>

lemma get_settings_hit: "settings_cache s = Some v \<Longrightarrow> get_settings w s = (Inr v, s)"
  by (simp add: get_settings_def)

lemma get_settings_miss:
  "settings_cache s = None \<Longrightarrow>
   get_settings w s =
     (case AppSettings w of
        Inl e \<Rightarrow> (Inl (38, e), s\<lparr>trace := trace s @ [ConstructAppSettings]\<rparr>)
      | Inr v \<Rightarrow> (Inr v, s\<lparr>trace := trace s @ [ConstructAppSettings], settings_cache := Some v\<rparr>))"
  by (simp add: get_settings_def run_simps split: sum.splits)

lemma get_settings_fresh_trace:
  "get_settings w (fresh c) = (r, s0) \<Longrightarrow>
   trace s0 = (if c = None then [ConstructAppSettings] else [])"
  by (cases c; cases "AppSettings w")
     (auto simp: fresh_def get_settings_hit get_settings_miss)

lemma lifespan_run:
  "lifespan w s =
     (case lifespan_startup w s of
        (Inl f, s') \<Rightarrow> (Inl f, s')
      | (Inr fr, s') \<Rightarrow>
          (case serving w of
             Some e \<Rightarrow> (Inl (79, e), s')
           | None \<Rightarrow> lifespan_shutdown w fr s'))"
  by (simp add: lifespan_def py_bind_def py_raise_def split: prod.splits sum.splits option.splits)

lemma lifespan_shutdown_run:
  "lifespan_shutdown w fr s =
     (let t = local_mqtt_listener_task fr;
          awaited = s\<lparr>trace := trace s @ [TaskCancel t, TaskAwait t]\<rparr>;
          disposed = s\<lparr>trace := trace s @ [TaskCancel t, TaskAwait t, EngineDispose (local_engine fr)]\<rparr>;
          dispose = (case engine_dispose w (local_engine fr) of
                       Inl e \<Rightarrow> (Inl (92, e), disposed)
                     | Inr u \<Rightarrow> (Inr (), disposed))
      in case await_task w t of
           Inl e \<Rightarrow> if e = CancelledError then dispose else (Inl (89, e), awaited)
         | Inr u \<Rightarrow> dispose)"
  by (simp add: lifespan_shutdown_def py_except_CancelledError_def run_simps
           split: sum.splits)

lemmas world_simps = world_listener_returned_def world_listener_crashed_def
  world_ok_def world_with_def settings_ok_def settings_sqlite_def
  settings_kafka_def settings_fd0_def settings_no_fd_def world_db_down_def world_invalid_env_def

lemmas eval_simps = lifespan_def lifespan_startup_def lifespan_shutdown_def get_settings_def
  py_except_CancelledError_def run_simps fresh_def new_state_ring_buffer_def deque_new_def

section \<open>The readiness signal tests truthiness\<close>

text \<open>
  C9. \<open>write_healthcheck_file\<close> tests \<open>notify_fd\<close> for truthiness, not for
  presence: the integer 0 is falsy, and for every settings value whose \<open>notify_fd\<close>
  is falsy the function returns without writing or closing anything (the state, and so
  the trace, is unchanged), exactly as it does when \<open>notify_fd\<close> is \<open>None\<close>.
\<close>

theorem falsy_notify_fd_writes_nothing:
  "\<not> truthy (Some 0)
   \<and> (\<not> truthy (notify_fd settings) \<longrightarrow>
        write_healthcheck_file w settings s = (Inr (), s)
      \<and> write_healthcheck_file w settings s
          = write_healthcheck_file w (settings\<lparr>notify_fd := None\<rparr>) s)"
  by (simp add: write_healthcheck_file_def truthy_def py_return_def Let_def)

theorem falsy_notify_fd_writes_nothing_witness:
  "notify_fd settings_fd0 = Some 0
   \<and> \<not> truthy (notify_fd settings_fd0)
   \<and> write_healthcheck_file world_ok settings_fd0 (fresh None) = (Inr (), fresh None)
   \<and> trace (snd (write_healthcheck_file world_ok settings_fd0 (fresh None))) = []"
proof -
  have fd: "notify_fd settings_fd0 = Some 0"
    by (simp add: settings_fd0_def settings_ok_def)
  have falsy: "\<not> truthy (notify_fd settings_fd0)"
    by (simp add: fd truthy_def)
  from falsy falsy_notify_fd_writes_nothing [of settings_fd0 world_ok "fresh None"]
  have "write_healthcheck_file world_ok settings_fd0 (fresh None) = (Inr (), fresh None)"
    by blast
  with fd falsy show ?thesis by (simp add: fresh_def)
qed

section \<open>The cached settings accessor\<close>






lemma lifespan_startup_no_settings:
  "get_settings w s = (Inl f, s0) \<Longrightarrow> lifespan_startup w s = (Inl f, s0)"
  by (simp add: lifespan_startup_def py_bind_def)

lemma lifespan_startup_success:
  fixes fr :: frame
  assumes ok: "lifespan_startup w s = (Inr fr, s')"
  obtains app s0 eng cl ms where
    "get_settings w s = (Inr app, s0)"
    "store_type (store app) = ''psql''"
    "setup_db w (store app) = Inr eng"
    "events_type (events app) = ''mqtt''"
    "setup_mqtt_client w (events app) = Inr cl"
    "log_system_models w (force_publish_models app) = Inr ms"
    "connect_to_mlflow w app = Inr ()"
    "fr = \<lparr>local_app_settings = app,
           local_mqtt_listener_task =
             Task (listen_to_mqtt cl new_state_ring_buffer
                     (Partial_insert_summary eng (include_challenger_models app))),
           local_engine = eng,
           yielded = \<lparr>state_ring_buffer = new_state_ring_buffer,
                       loaded_models = ms, database_engine = eng\<rparr>\<rparr>"
    "trace s' = trace s0
       @ [LogInfo ''Starting mindctrl server with settings:'', LogInfoDump app,
          CreateTask (Task (poll_registry 10)), LogInfo ''Setting up DB'',
          SetupDb (store app), LogInfo ''Setting up MQTT'',
          SetupMqttClient (events app), LogInfo ''Starting MQTT listener'',
          CreateTask (Task (listen_to_mqtt cl new_state_ring_buffer
                     (Partial_insert_summary eng (include_challenger_models app)))),
          LogInfo ''Logging models'', LogSystemModels (force_publish_models app),
          ConnectToMlflow app]
       @ (case notify_fd app of
            None \<Rightarrow> []
          | Some fd \<Rightarrow> if fd = 0 then [] else [OsWrite fd [CHR 0x0A], OsClose fd])
       @ [LogInfo ''Finished server setup'',
          Yield \<lparr>state_ring_buffer = new_state_ring_buffer,
                 loaded_models = ms, database_engine = eng\<rparr>]"
proof -
  obtain r s0 where g: "get_settings w s = (r, s0)"
    by (cases "get_settings w s")
  show ?thesis
  proof (cases r)
    case (Inl f)
    with g ok show ?thesis
      by (simp add: lifespan_startup_no_settings)
  next
    case (Inr app)
    with g have gs: "get_settings w s = (Inr app, s0)" by simp
    from gs show ?thesis
    proof (cases rule: lifespan_startup_cases)
      case (started_notified eng cl ms fd)
      with ok show ?thesis
        by (intro that [of app s0 eng cl ms] gs) auto
    next
      case (started_silent eng cl ms)
      with ok show ?thesis
        by (intro that [of app s0 eng cl ms] gs)
           (auto simp: truthy_def split: option.splits)
    qed (use ok in simp_all)
  qed
qed

section \<open>Configuration errors and what has been acquired\<close>

text \<open>
  With settings that name the supported storage kind and an unsupported event-bus kind,
  \<open>setup_db\<close> has been called and has returned the engine when line 62 raises: the
  event-bus error does not come before every acquisition.
\<close>

theorem events_kind_error_after_storage_counterexample:
  "fst (lifespan (world_with settings_kafka) (fresh None))
     = Inl (62, ValueError ''unknown events type: kafka'')
   \<and> setup_db (world_with settings_kafka) \<lparr>store_type = ''psql''\<rparr> = Inr (Engine 1)
   \<and> filter is_acquisition (trace (snd (lifespan (world_with settings_kafka) (fresh None))))
       = [SetupDb \<lparr>store_type = ''psql''\<rparr>]"
  by (simp add: eval_simps world_simps is_acquisition_def)

text \<open>
  C2. Once the settings are at hand: an unsupported storage kind makes line 54 raise
  its \<open>ValueError\<close> before \<open>setup_db\<close> or \<open>setup_mqtt_client\<close> is called,
  so neither the storage engine nor the event-bus client has been acquired. With the
  supported storage kind and \<open>setup_db\<close> returning an engine, an unsupported
  event-bus kind makes line 62 raise its \<open>ValueError\<close> before
  \<open>setup_mqtt_client\<close> is called, and after the storage engine has been acquired:
  the one acquisition on that path is the call of \<open>setup_db\<close>.
\<close>

theorem config_errors_and_acquisition:
  assumes gs: "get_settings w (fresh c) = (Inr app, s0)"
  shows "(store_type (store app) \<noteq> ''psql'' \<longrightarrow>
            fst (lifespan w (fresh c))
              = Inl (54, ValueError (''unknown store type: '' @ store_type (store app)))
          \<and> filter is_acquisition (trace (snd (lifespan w (fresh c)))) = [])
       \<and> (store_type (store app) = ''psql'' \<and> setup_db w (store app) = Inr eng
          \<and> events_type (events app) \<noteq> ''mqtt'' \<longrightarrow>
            fst (lifespan w (fresh c))
              = Inl (62, ValueError (''unknown events type: '' @ events_type (events app)))
          \<and> filter is_acquisition (trace (snd (lifespan w (fresh c)))) = [SetupDb (store app)])"
proof -
  note tr = get_settings_fresh_trace [OF gs]
  show ?thesis
    by (cases rule: lifespan_startup_cases [OF gs])
       (simp_all add: lifespan_run tr is_acquisition_def)
qed

theorem config_errors_and_acquisition_witness:
  "fst (lifespan (world_with settings_sqlite) (fresh None))
     = Inl (54, ValueError ''unknown store type: sqlite'')
   \<and> filter is_acquisition (trace (snd (lifespan (world_with settings_sqlite) (fresh None)))) = []
   \<and> fst (lifespan (world_with settings_kafka) (fresh (Some settings_kafka)))
     = Inl (62, ValueError ''unknown events type: kafka'')
   \<and> filter is_acquisition
        (trace (snd (lifespan (world_with settings_kafka) (fresh (Some settings_kafka)))))
       = [SetupDb \<lparr>store_type = ''psql''\<rparr>]"
proof -
  have gs1: "get_settings (world_with settings_sqlite) (fresh None)
      = (Inr settings_sqlite, \<lparr>settings_cache = Some settings_sqlite, trace = [ConstructAppSettings]\<rparr>)"
    by (simp add: get_settings_def run_simps fresh_def world_with_def world_ok_def)
  have gs2: "get_settings (world_with settings_kafka) (fresh (Some settings_kafka))
      = (Inr settings_kafka, fresh (Some settings_kafka))"
    by (simp add: get_settings_def fresh_def)
  have a: "store_type (store settings_sqlite) \<noteq> ''psql''"
    by (simp add: settings_sqlite_def)
  have b: "store_type (store settings_kafka) = ''psql''
      \<and> setup_db (world_with settings_kafka) (store settings_kafka) = Inr (Engine 1)
      \<and> events_type (events settings_kafka) \<noteq> ''mqtt''"
    by (simp add: world_simps)
  from config_errors_and_acquisition [OF gs1, of "Engine 1"] a
       config_errors_and_acquisition [OF gs2, of "Engine 1"] b
  show ?thesis
    by (simp add: world_simps)
qed

section \<open>Storage failures\<close>

text \<open>
  With an unsupported storage kind, the task for \<open>poll_registry\<close> has been created
  (line 47) when line 54 raises: the error does not come before every background task.
\<close>

theorem storage_failure_after_poller_counterexample:
  "fst (lifespan (world_with settings_sqlite) (fresh None))
     = Inl (54, ValueError ''unknown store type: sqlite'')
   \<and> filter is_CreateTask (trace (snd (lifespan (world_with settings_sqlite) (fresh None))))
       = [CreateTask (Task (poll_registry 10))]
   \<and> filter is_CreateTask (trace (snd (lifespan (world_with settings_sqlite) (fresh None))))
       \<noteq> []"
  by (simp add: eval_simps world_simps)

text \<open>
  C3. Once the settings are at hand, if the storage kind is unsupported or
  \<open>setup_db\<close> raises, then \<open>lifespan\<close> raises (at line 54, or at line 55 with
  the exception of \<open>setup_db\<close>); the only background task created is the one for
  \<open>poll_registry(10.0)\<close>, so the event listener is never started; nothing is written
  to or closed on a descriptor; and nothing is yielded to the serving layer.
\<close>

theorem storage_failure_stops_startup:
  assumes gs: "get_settings w (fresh c) = (Inr app, s0)"
      and bad: "store_type (store app) \<noteq> ''psql'' \<or> setup_db w (store app) = Inl e"
  shows "fst (lifespan w (fresh c))
           = (if store_type (store app) \<noteq> ''psql''
              then Inl (54, ValueError (''unknown store type: '' @ store_type (store app)))
              else Inl (55, e))
       \<and> filter is_CreateTask (trace (snd (lifespan w (fresh c))))
           = [CreateTask (Task (poll_registry 10))]
       \<and> filter is_os_action (trace (snd (lifespan w (fresh c)))) = []
       \<and> filter is_Yield (trace (snd (lifespan w (fresh c)))) = []"
proof -
  note tr = get_settings_fresh_trace [OF gs]
  show ?thesis
    using bad
    by (cases rule: lifespan_startup_cases [OF gs])
       (auto simp add: lifespan_run tr is_os_action_def)
qed

theorem storage_failure_stops_startup_witness:
  "fst (lifespan (world_with settings_sqlite) (fresh None))
     = Inl (54, ValueError ''unknown store type: sqlite'')
   \<and> filter is_CreateTask (trace (snd (lifespan (world_with settings_sqlite) (fresh None))))
       = [CreateTask (Task (poll_registry 10))]
   \<and> filter is_os_action (trace (snd (lifespan (world_with settings_sqlite) (fresh None)))) = []
   \<and> filter is_Yield (trace (snd (lifespan (world_with settings_sqlite) (fresh None)))) = []
   \<and> fst (lifespan world_db_down (fresh None)) = Inl (55, OSError ''connection refused'')
   \<and> filter is_CreateTask (trace (snd (lifespan world_db_down (fresh None))))
       = [CreateTask (Task (poll_registry 10))]
   \<and> filter is_os_action (trace (snd (lifespan world_db_down (fresh None)))) = []
   \<and> filter is_Yield (trace (snd (lifespan world_db_down (fresh None)))) = []"
proof -
  have gs1: "get_settings (world_with settings_sqlite) (fresh None)
      = (Inr settings_sqlite, \<lparr>settings_cache = Some settings_sqlite, trace = [ConstructAppSettings]\<rparr>)"
    by (simp add: get_settings_def run_simps fresh_def world_with_def world_ok_def)
  have gs2: "get_settings world_db_down (fresh None)
      = (Inr settings_ok, \<lparr>settings_cache = Some settings_ok, trace = [ConstructAppSettings]\<rparr>)"
    by (simp add: get_settings_def run_simps fresh_def world_db_down_def world_ok_def)
  have a: "store_type (store settings_sqlite) \<noteq> ''psql''
           \<or> setup_db (world_with settings_sqlite) (store settings_sqlite) = Inl (OSError ''connection refused'')"
    by (simp add: settings_sqlite_def)
  have b: "store_type (store settings_ok) \<noteq> ''psql''
           \<or> setup_db world_db_down (store settings_ok) = Inl (OSError ''connection refused'')"
    by (simp add: world_db_down_def)
  from storage_failure_stops_startup [OF gs1 a] storage_failure_stops_startup [OF gs2 b]
  show ?thesis
    by (simp add: settings_sqlite_def settings_ok_def)
qed

section \<open>The order of startup\<close>

text \<open>
  In the world where everything succeeds, the first lifecycle step of startup is the
  creation of the \<open>poll_registry\<close> task, not the call of \<open>setup_db\<close>.
\<close>

theorem poller_before_storage_counterexample:
  "\<not> isl (fst (lifespan_startup world_ok (fresh None)))
   \<and> filter is_lifecycle_step (trace (snd (lifespan_startup world_ok (fresh None))))
       = [CreateTask (Task (poll_registry 10)),
          SetupDb \<lparr>store_type = ''psql''\<rparr>,
          CreateTask (Task (listen_to_mqtt (MqttClient 1) new_state_ring_buffer
                              (Partial_insert_summary (Engine 1) True))),
          Yield \<lparr>state_ring_buffer = new_state_ring_buffer, loaded_models = [''chat''],
                 database_engine = Engine 1\<rparr>]
   \<and> hd (filter is_lifecycle_step (trace (snd (lifespan_startup world_ok (fresh None)))))
       \<noteq> SetupDb \<lparr>store_type = ''psql''\<rparr>"
  by (simp add: eval_simps world_simps is_lifecycle_step_def)

text \<open>
  C4. On every run of startup that reaches the \<open>yield\<close>, the lifecycle steps are, in
  this order: the \<open>poll_registry\<close> task is created, the storage engine is acquired
  by \<open>setup_db\<close>, the task for \<open>listen_to_mqtt\<close> is created, and the shared
  state (holding that engine) is yielded.
\<close>

theorem startup_order:
  assumes ok: "lifespan_startup w (fresh c) = (Inr fr, s')"
  shows "filter is_lifecycle_step (trace s')
           = [CreateTask (Task (poll_registry 10)),
              SetupDb (store (local_app_settings fr)),
              CreateTask (local_mqtt_listener_task fr),
              Yield (yielded fr)]
       \<and> setup_db w (store (local_app_settings fr)) = Inr (local_engine fr)
       \<and> database_engine (yielded fr) = local_engine fr
       \<and> \<not> is_poll_registry (local_mqtt_listener_task fr)"
proof -
  from ok obtain app s0 eng cl ms where
      gs: "get_settings w (fresh c) = (Inr app, s0)"
    and db: "setup_db w (store app) = Inr eng"
    and fr: "fr = \<lparr>local_app_settings = app,
           local_mqtt_listener_task =
             Task (listen_to_mqtt cl new_state_ring_buffer
                     (Partial_insert_summary eng (include_challenger_models app))),
           local_engine = eng,
           yielded = \<lparr>state_ring_buffer = new_state_ring_buffer,
                       loaded_models = ms, database_engine = eng\<rparr>\<rparr>"
    and tr: "trace s' = trace s0
       @ [LogInfo ''Starting mindctrl server with settings:'', LogInfoDump app,
          CreateTask (Task (poll_registry 10)), LogInfo ''Setting up DB'',
          SetupDb (store app), LogInfo ''Setting up MQTT'',
          SetupMqttClient (events app), LogInfo ''Starting MQTT listener'',
          CreateTask (Task (listen_to_mqtt cl new_state_ring_buffer
                     (Partial_insert_summary eng (include_challenger_models app)))),
          LogInfo ''Logging models'', LogSystemModels (force_publish_models app),
          ConnectToMlflow app]
       @ (case notify_fd app of
            None \<Rightarrow> []
          | Some fd \<Rightarrow> if fd = 0 then [] else [OsWrite fd [CHR 0x0A], OsClose fd])
       @ [LogInfo ''Finished server setup'',
          Yield \<lparr>state_ring_buffer = new_state_ring_buffer,
                 loaded_models = ms, database_engine = eng\<rparr>]"
    by (rule lifespan_startup_success)
  note tr0 = get_settings_fresh_trace [OF gs]
  show ?thesis
    by (simp add: fr tr tr0 db is_lifecycle_step_def split: option.splits)
qed

theorem startup_order_witness:
  "lifespan_startup world_ok (fresh None)
     = (Inr \<lparr>local_app_settings = settings_ok,
             local_mqtt_listener_task =
               Task (listen_to_mqtt (MqttClient 1) new_state_ring_buffer
                       (Partial_insert_summary (Engine 1) True)),
             local_engine = Engine 1,
             yielded = \<lparr>state_ring_buffer = new_state_ring_buffer,
                         loaded_models = [''chat''], database_engine = Engine 1\<rparr>\<rparr>,
        snd (lifespan_startup world_ok (fresh None)))
   \<and> filter is_lifecycle_step (trace (snd (lifespan_startup world_ok (fresh None))))
       = [CreateTask (Task (poll_registry 10)),
          SetupDb (store settings_ok),
          CreateTask (Task (listen_to_mqtt (MqttClient 1) new_state_ring_buffer
                              (Partial_insert_summary (Engine 1) True))),
          Yield \<lparr>state_ring_buffer = new_state_ring_buffer, loaded_models = [''chat''],
                 database_engine = Engine 1\<rparr>]"
proof -
  have run: "lifespan_startup world_ok (fresh None)
     = (Inr \<lparr>local_app_settings = settings_ok,
             local_mqtt_listener_task =
               Task (listen_to_mqtt (MqttClient 1) new_state_ring_buffer
                       (Partial_insert_summary (Engine 1) True)),
             local_engine = Engine 1,
             yielded = \<lparr>state_ring_buffer = new_state_ring_buffer,
                         loaded_models = [''chat''], database_engine = Engine 1\<rparr>\<rparr>,
        snd (lifespan_startup world_ok (fresh None)))"
    by (simp add: eval_simps world_simps)
  from startup_order [OF run] run show ?thesis
    by simp
qed

text \<open>The trace of the whole generator, from the trace of its startup.\<close>

lemma lifespan_shutdown_trace:
  "trace (snd (lifespan_shutdown w fr s))
     = trace s
       @ [TaskCancel (local_mqtt_listener_task fr), TaskAwait (local_mqtt_listener_task fr)]
       @ (case await_task w (local_mqtt_listener_task fr) of
            Inl e \<Rightarrow> if e = CancelledError then [EngineDispose (local_engine fr)] else []
          | Inr u \<Rightarrow> [EngineDispose (local_engine fr)])"
  by (simp add: lifespan_shutdown_run Let_def split: sum.split)

lemma lifespan_trace:
  "lifespan_startup w s = (r, s1) \<Longrightarrow>
   trace (snd (lifespan w s))
     = trace s1
       @ (case r of
            Inl f \<Rightarrow> []
          | Inr fr \<Rightarrow>
              (case serving w of
                 Some e \<Rightarrow> []
               | None \<Rightarrow>
                   [TaskCancel (local_mqtt_listener_task fr),
                    TaskAwait (local_mqtt_listener_task fr)]
                   @ (case await_task w (local_mqtt_listener_task fr) of
                        Inl e \<Rightarrow>
                          if e = CancelledError then [EngineDispose (local_engine fr)] else []
                      | Inr u \<Rightarrow> [EngineDispose (local_engine fr)])))"
  by (cases r; cases "serving w") (simp_all add: lifespan_run lifespan_shutdown_trace)

lemma startup_poller_trace:
  assumes gs: "get_settings w (fresh c) = (Inr app, s0)"
  shows "filter on_poller (trace (snd (lifespan_startup w (fresh c))))
           = [CreateTask (Task (poll_registry 10))]"
proof -
  note tr = get_settings_fresh_trace [OF gs]
  show ?thesis
    by (cases rule: lifespan_startup_cases [OF gs])
       (simp_all add: tr on_poller_def)
qed

lemma startup_dispose_trace:
  assumes gs: "get_settings w (fresh c) = (Inr app, s0)"
  shows "filter is_EngineDispose (trace (snd (lifespan_startup w (fresh c)))) = []"
    and "filter is_cancel_or_await (trace (snd (lifespan_startup w (fresh c)))) = []"
proof -
  note tr = get_settings_fresh_trace [OF gs]
  show "filter is_EngineDispose (trace (snd (lifespan_startup w (fresh c)))) = []"
    by (cases rule: lifespan_startup_cases [OF gs]) (simp_all add: tr)
  show "filter is_cancel_or_await (trace (snd (lifespan_startup w (fresh c)))) = []"
    by (cases rule: lifespan_startup_cases [OF gs]) (simp_all add: tr is_cancel_or_await_def)
qed

lemma started_listener:
  assumes ok: "lifespan_startup w s = (Inr fr, s1)"
  shows "\<not> is_poll_registry (local_mqtt_listener_task fr)"
proof -
  from ok obtain app s0 eng cl ms where
    "fr = \<lparr>local_app_settings = app,
           local_mqtt_listener_task =
             Task (listen_to_mqtt cl new_state_ring_buffer
                     (Partial_insert_summary eng (include_challenger_models app))),
           local_engine = eng,
           yielded = \<lparr>state_ring_buffer = new_state_ring_buffer,
                       loaded_models = ms, database_engine = eng\<rparr>\<rparr>"
    by (rule lifespan_startup_success)
  then show ?thesis by simp
qed

section \<open>Shutdown\<close>

text \<open>
  When the listener task has ended with an exception of its own, startup having
  succeeded and the serving layer resuming the generator normally: the await at line
  89 raises that exception, which is not a \<open>CancelledError\<close> and so is not caught,
  and line 92 is never reached. This shutdown raises and does not dispose the engine.
\<close>

theorem crashed_listener_skips_dispose_counterexample:
  "\<not> isl (fst (lifespan_startup world_listener_crashed (fresh None)))
   \<and> serving world_listener_crashed = None
   \<and> fst (lifespan world_listener_crashed (fresh None))
       = Inl (89, Exception ''connection lost'')
   \<and> filter is_cancel_or_await (trace (snd (lifespan world_listener_crashed (fresh None))))
       = [TaskCancel (Task (listen_to_mqtt (MqttClient 1) new_state_ring_buffer
                       (Partial_insert_summary (Engine 1) True))),
          TaskAwait (Task (listen_to_mqtt (MqttClient 1) new_state_ring_buffer
                       (Partial_insert_summary (Engine 1) True)))]
   \<and> filter is_EngineDispose (trace (snd (lifespan world_listener_crashed (fresh None))))
       = []"
  by (simp add: eval_simps world_simps is_cancel_or_await_def)

text \<open>
  C5. After a startup that reached the \<open>yield\<close> and a normal resumption by the
  serving layer, the shutdown code acts on the listener task created at startup and
  on the engine \<open>setup_db\<close> returned, which startup has not disposed. In every
  such shutdown it first cancels the task and then awaits it. Whenever the await
  returns or raises \<open>CancelledError\<close> (which is swallowed), the engine is disposed
  next, strictly after the await, and these three actions are all that happens;
  \<open>lifespan\<close> then returns normally, unless \<open>engine.dispose()\<close> itself raises
  (at line 92). When the await raises any other exception, that exception propagates
  from line 89, and cancel and await are all that happens: the engine is not disposed.
\<close>

theorem shutdown_cancels_awaits_disposes:
  assumes ok: "lifespan_startup w (fresh c) = (Inr fr, s1)"
      and resumed: "serving w = None"
  shows "CreateTask (local_mqtt_listener_task fr) \<in> set (trace s1)
       \<and> \<not> is_poll_registry (local_mqtt_listener_task fr)
       \<and> setup_db w (store (local_app_settings fr)) = Inr (local_engine fr)
       \<and> filter is_EngineDispose (trace s1) = []
       \<and> take (length (trace s1) + 2) (trace (snd (lifespan w (fresh c))))
           = trace s1 @ [TaskCancel (local_mqtt_listener_task fr),
                         TaskAwait (local_mqtt_listener_task fr)]
       \<and> (await_task w (local_mqtt_listener_task fr) = Inr ()
          \<or> await_task w (local_mqtt_listener_task fr) = Inl CancelledError \<longrightarrow>
            trace (snd (lifespan w (fresh c)))
              = trace s1 @ [TaskCancel (local_mqtt_listener_task fr),
                            TaskAwait (local_mqtt_listener_task fr),
                            EngineDispose (local_engine fr)]
          \<and> fst (lifespan w (fresh c))
              = (case engine_dispose w (local_engine fr) of
                   Inl e' \<Rightarrow> Inl (92, e')
                 | Inr u \<Rightarrow> Inr ()))
       \<and> (await_task w (local_mqtt_listener_task fr) = Inl e \<and> e \<noteq> CancelledError \<longrightarrow>
            trace (snd (lifespan w (fresh c)))
              = trace s1 @ [TaskCancel (local_mqtt_listener_task fr),
                            TaskAwait (local_mqtt_listener_task fr)]
          \<and> fst (lifespan w (fresh c)) = Inl (89, e))"
proof -
  from ok obtain app s0 eng cl ms where
      gs: "get_settings w (fresh c) = (Inr app, s0)"
    and db: "setup_db w (store app) = Inr eng"
    and fr: "fr = \<lparr>local_app_settings = app,
           local_mqtt_listener_task =
             Task (listen_to_mqtt cl new_state_ring_buffer
                     (Partial_insert_summary eng (include_challenger_models app))),
           local_engine = eng,
           yielded = \<lparr>state_ring_buffer = new_state_ring_buffer,
                       loaded_models = ms, database_engine = eng\<rparr>\<rparr>"
    and tr: "trace s1 = trace s0
       @ [LogInfo ''Starting mindctrl server with settings:'', LogInfoDump app,
          CreateTask (Task (poll_registry 10)), LogInfo ''Setting up DB'',
          SetupDb (store app), LogInfo ''Setting up MQTT'',
          SetupMqttClient (events app), LogInfo ''Starting MQTT listener'',
          CreateTask (Task (listen_to_mqtt cl new_state_ring_buffer
                     (Partial_insert_summary eng (include_challenger_models app)))),
          LogInfo ''Logging models'', LogSystemModels (force_publish_models app),
          ConnectToMlflow app]
       @ (case notify_fd app of
            None \<Rightarrow> []
          | Some fd \<Rightarrow> if fd = 0 then [] else [OsWrite fd [CHR 0x0A], OsClose fd])
       @ [LogInfo ''Finished server setup'',
          Yield \<lparr>state_ring_buffer = new_state_ring_buffer,
                 loaded_models = ms, database_engine = eng\<rparr>]"
    by (rule lifespan_startup_success)
  note tr0 = get_settings_fresh_trace [OF gs]
  have startup: "CreateTask (local_mqtt_listener_task fr) \<in> set (trace s1)
       \<and> \<not> is_poll_registry (local_mqtt_listener_task fr)
       \<and> setup_db w (store (local_app_settings fr)) = Inr (local_engine fr)
       \<and> filter is_EngineDispose (trace s1) = []"
    by (simp add: fr tr tr0 db split: option.splits)
  have run: "lifespan w (fresh c) = lifespan_shutdown w fr s1"
    by (simp add: lifespan_run ok resumed)
  have first_two: "take (length (trace s1) + 2) (trace (snd (lifespan_shutdown w fr s1)))
           = trace s1 @ [TaskCancel (local_mqtt_listener_task fr),
                         TaskAwait (local_mqtt_listener_task fr)]"
    by (simp add: lifespan_shutdown_trace)
  have disposes: "await_task w (local_mqtt_listener_task fr) = Inr ()
          \<or> await_task w (local_mqtt_listener_task fr) = Inl CancelledError \<longrightarrow>
            trace (snd (lifespan_shutdown w fr s1))
              = trace s1 @ [TaskCancel (local_mqtt_listener_task fr),
                            TaskAwait (local_mqtt_listener_task fr),
                            EngineDispose (local_engine fr)]
          \<and> fst (lifespan_shutdown w fr s1)
              = (case engine_dispose w (local_engine fr) of
                   Inl e' \<Rightarrow> Inl (92, e')
                 | Inr u \<Rightarrow> Inr ())"
    by (auto simp add: lifespan_shutdown_run Let_def split: sum.split)
  have propagates: "await_task w (local_mqtt_listener_task fr) = Inl e \<and> e \<noteq> CancelledError \<longrightarrow>
            trace (snd (lifespan_shutdown w fr s1))
              = trace s1 @ [TaskCancel (local_mqtt_listener_task fr),
                            TaskAwait (local_mqtt_listener_task fr)]
          \<and> fst (lifespan_shutdown w fr s1) = Inl (89, e)"
    by (simp add: lifespan_shutdown_run Let_def)
  from startup first_two disposes propagates show ?thesis
    unfolding run by blast
qed

section \<open>The readiness signal\<close>

text \<open>
  With descriptor 0 configured as the notification descriptor and every collaborator
  returning, startup succeeds and nothing is written or closed.
\<close>

theorem fd0_configured_but_silent_counterexample:
  "notify_fd settings_fd0 = Some 0
   \<and> AppSettings (world_with settings_fd0) = Inr settings_fd0
   \<and> \<not> isl (fst (lifespan_startup (world_with settings_fd0) (fresh None)))
   \<and> filter is_os_action (trace (snd (lifespan_startup (world_with settings_fd0) (fresh None))))
       = []"
  by (simp add: eval_simps world_simps is_os_action_def)

text \<open>
  C6. Once the settings are at hand. On a startup that reaches the \<open>yield\<close>: if
  \<open>notify_fd\<close> is a descriptor other than 0, the only writes and closes are one
  write of the single newline byte to that descriptor followed by its close, and
  every collaborator call of startup (both tasks, \<open>setup_db\<close>,
  \<open>setup_mqtt_client\<close>, \<open>log_system_models\<close>, \<open>connect_to_mlflow\<close>) comes
  before the write, the \<open>yield\<close> after it; if \<open>notify_fd\<close> is \<open>None\<close> or 0,
  nothing is written or closed. On any run, a write happens only when both kinds are
  supported and all four collaborators have returned. With \<open>notify_fd\<close> \<open>None\<close>
  or 0 and those steps succeeding, startup raises nothing.
\<close>

theorem readiness_signal:
  assumes gs: "get_settings w (fresh c) = (Inr app, s0)"
  shows "(fst (lifespan_startup w (fresh c)) = Inr fr \<longrightarrow>
            filter is_os_action (trace (snd (lifespan_startup w (fresh c))))
              = (case notify_fd app of
                   None \<Rightarrow> []
                 | Some fd \<Rightarrow> if fd = 0 then [] else [OsWrite fd [CHR 0x0A], OsClose fd])
          \<and> filter is_startup_call
               (takeWhile (\<lambda>a. \<not> is_OsWrite a) (trace (snd (lifespan_startup w (fresh c)))))
              = [CreateTask (Task (poll_registry 10)), SetupDb (store app),
                 SetupMqttClient (events app), CreateTask (local_mqtt_listener_task fr),
                 LogSystemModels (force_publish_models app), ConnectToMlflow app]
          \<and> filter is_Yield
               (takeWhile (\<lambda>a. \<not> is_OsWrite a) (trace (snd (lifespan_startup w (fresh c)))))
              = (if truthy (notify_fd app) then [] else [Yield (yielded fr)]))
       \<and> (filter is_OsWrite (trace (snd (lifespan_startup w (fresh c)))) \<noteq> [] \<longrightarrow>
            store_type (store app) = ''psql'' \<and> \<not> isl (setup_db w (store app))
          \<and> events_type (events app) = ''mqtt'' \<and> \<not> isl (setup_mqtt_client w (events app))
          \<and> \<not> isl (log_system_models w (force_publish_models app))
          \<and> \<not> isl (connect_to_mlflow w app))
       \<and> (\<not> truthy (notify_fd app) \<and> store_type (store app) = ''psql''
          \<and> \<not> isl (setup_db w (store app))
          \<and> events_type (events app) = ''mqtt'' \<and> \<not> isl (setup_mqtt_client w (events app))
          \<and> \<not> isl (log_system_models w (force_publish_models app))
          \<and> \<not> isl (connect_to_mlflow w app) \<longrightarrow>
            \<not> isl (fst (lifespan_startup w (fresh c))))"
proof -
  note tr = get_settings_fresh_trace [OF gs]
  show ?thesis
    by (cases rule: lifespan_startup_cases [OF gs])
       (auto simp add: tr is_os_action_def is_startup_call_def truthy_def split: option.splits)
qed

section \<open>The registry poller\<close>

text \<open>
  C7. Once the settings are at hand, on every run of \<open>lifespan\<close>, whatever happens
  later: among the actions on a \<open>poll_registry\<close> task there is exactly one, its
  creation with the interval 10; the task is never cancelled and never awaited. After
  a successful startup and a normal resumption, the only cancellation and the only
  await are those of the listener task, which is not a \<open>poll_registry\<close> task.
\<close>

theorem poller_is_fire_and_forget:
  assumes gs: "get_settings w (fresh c) = (Inr app, s0)"
  shows "filter on_poller (trace (snd (lifespan w (fresh c))))
           = [CreateTask (Task (poll_registry 10))]
       \<and> (fst (lifespan_startup w (fresh c)) = Inr fr \<and> serving w = None \<longrightarrow>
            filter is_cancel_or_await (trace (snd (lifespan w (fresh c))))
              = [TaskCancel (local_mqtt_listener_task fr),
                 TaskAwait (local_mqtt_listener_task fr)]
          \<and> \<not> is_poll_registry (local_mqtt_listener_task fr))"
proof -
  obtain r s1 where st: "lifespan_startup w (fresh c) = (r, s1)"
    by (cases "lifespan_startup w (fresh c)")
  note whole = lifespan_trace [OF st]
  from startup_poller_trace [OF gs] st
  have p: "filter on_poller (trace s1) = [CreateTask (Task (poll_registry 10))]"
    by simp
  from startup_dispose_trace(2) [OF gs] st
  have q: "filter is_cancel_or_await (trace s1) = []"
    by simp
  have first: "filter on_poller (trace (snd (lifespan w (fresh c))))
           = [CreateTask (Task (poll_registry 10))]"
  proof (cases r)
    case (Inl f)
    with whole p show ?thesis by simp
  next
    case (Inr fr')
    with st have "\<not> is_poll_registry (local_mqtt_listener_task fr')"
      by (simp add: started_listener)
    with whole p Inr show ?thesis
      by (simp add: on_poller_def split: option.split sum.split)
  qed
  have second: "fst (lifespan_startup w (fresh c)) = Inr fr \<and> serving w = None \<longrightarrow>
            filter is_cancel_or_await (trace (snd (lifespan w (fresh c))))
              = [TaskCancel (local_mqtt_listener_task fr),
                 TaskAwait (local_mqtt_listener_task fr)]
          \<and> \<not> is_poll_registry (local_mqtt_listener_task fr)"
  proof (intro impI, elim conjE)
    assume a: "fst (lifespan_startup w (fresh c)) = Inr fr" and b: "serving w = None"
    from a st have r: "r = Inr fr" by simp
    with st have l: "\<not> is_poll_registry (local_mqtt_listener_task fr)"
      by (simp add: started_listener)
    from whole q r b have "filter is_cancel_or_await (trace (snd (lifespan w (fresh c))))
              = [TaskCancel (local_mqtt_listener_task fr),
                 TaskAwait (local_mqtt_listener_task fr)]"
      by (simp add: is_cancel_or_await_def split: sum.split)
    with l show "filter is_cancel_or_await (trace (snd (lifespan w (fresh c))))
              = [TaskCancel (local_mqtt_listener_task fr),
                 TaskAwait (local_mqtt_listener_task fr)]
          \<and> \<not> is_poll_registry (local_mqtt_listener_task fr)"
      by simp
  qed
  from first second show ?thesis by blast
qed

section \<open>Startup failures after the storage engine is acquired\<close>

lemma lifespan_result:
  "lifespan_startup w s = (r, s1) \<Longrightarrow>
   fst (lifespan w s)
     = (case r of
          Inl f \<Rightarrow> Inl f
        | Inr fr \<Rightarrow>
            (case serving w of
               Some e \<Rightarrow> Inl (79, e)
             | None \<Rightarrow>
                 (case await_task w (local_mqtt_listener_task fr) of
                    Inl e \<Rightarrow>
                      if e = CancelledError
                      then (case engine_dispose w (local_engine fr) of
                              Inl e' \<Rightarrow> Inl (92, e')
                            | Inr u \<Rightarrow> Inr ())
                      else Inl (89, e)
                  | Inr u \<Rightarrow>
                      (case engine_dispose w (local_engine fr) of
                         Inl e' \<Rightarrow> Inl (92, e')
                       | Inr u \<Rightarrow> Inr ()))))"
  by (cases r; cases "serving w")
     (simp_all add: lifespan_run lifespan_shutdown_run Let_def split: sum.split)

lemma lifespan_raised_at_62:
  assumes st: "lifespan_startup w s = (r, s1)"
      and l: "fst (lifespan w s) = Inl (62, e)"
  shows "r = Inl (62, e)"
proof (cases r)
  case (Inl f)
  with lifespan_result [OF st] l show ?thesis by simp
next
  case (Inr fr)
  with lifespan_result [OF st] l show ?thesis
    by (simp split: option.splits sum.splits if_splits)
qed

lemma startup_raised_at_62:
  assumes gs: "get_settings w (fresh c) = (Inr app, s0)"
      and l: "fst (lifespan_startup w (fresh c)) = Inl (62, e)"
  shows "e = ValueError (''unknown events type: '' @ events_type (events app))
       \<and> \<not> isl (setup_db w (store app))
       \<and> filter is_SetupDb (trace (snd (lifespan_startup w (fresh c)))) = [SetupDb (store app)]"
proof -
  note tr = get_settings_fresh_trace [OF gs]
  show ?thesis
    using l
    by (cases rule: lifespan_startup_cases [OF gs]) (simp_all add: tr)
qed

text \<open>
  C10. Once the settings are at hand: when \<open>lifespan\<close> fails at line 62, the
  exception is the unknown-events-type \<open>ValueError\<close>, \<open>setup_db\<close> has been
  called once and has returned an engine, and \<open>dispose\<close> is never called.
  Whenever startup fails, \<open>dispose\<close> is never called; it is called only after
  a startup that reached the \<open>yield\<close> and was resumed normally.
\<close>

theorem startup_failure_leaves_engine_undisposed:
  assumes gs: "get_settings w (fresh c) = (Inr app, s0)"
  shows "(fst (lifespan w (fresh c)) = Inl (62, e) \<longrightarrow>
            e = ValueError (''unknown events type: '' @ events_type (events app))
          \<and> \<not> isl (setup_db w (store app))
          \<and> filter is_SetupDb (trace (snd (lifespan w (fresh c)))) = [SetupDb (store app)]
          \<and> filter is_EngineDispose (trace (snd (lifespan w (fresh c)))) = [])
       \<and> (isl (fst (lifespan_startup w (fresh c))) \<longrightarrow>
            filter is_EngineDispose (trace (snd (lifespan w (fresh c)))) = [])
       \<and> (filter is_EngineDispose (trace (snd (lifespan w (fresh c)))) \<noteq> [] \<longrightarrow>
            \<not> isl (fst (lifespan_startup w (fresh c))) \<and> serving w = None)"
proof -
  obtain r s1 where st: "lifespan_startup w (fresh c) = (r, s1)"
    by (cases "lifespan_startup w (fresh c)")
  note whole = lifespan_trace [OF st]
  from startup_dispose_trace(1) [OF gs] st
  have nd: "filter is_EngineDispose (trace s1) = []"
    by simp
  have failed: "isl r \<Longrightarrow> filter is_EngineDispose (trace (snd (lifespan w (fresh c)))) = []"
    using whole nd by (cases r) simp_all
  have thrown: "serving w \<noteq> None \<Longrightarrow>
      filter is_EngineDispose (trace (snd (lifespan w (fresh c)))) = []"
    using whole nd by (cases r) auto
  have first: "fst (lifespan w (fresh c)) = Inl (62, e) \<longrightarrow>
            e = ValueError (''unknown events type: '' @ events_type (events app))
          \<and> \<not> isl (setup_db w (store app))
          \<and> filter is_SetupDb (trace (snd (lifespan w (fresh c)))) = [SetupDb (store app)]
          \<and> filter is_EngineDispose (trace (snd (lifespan w (fresh c)))) = []"
  proof
    assume l: "fst (lifespan w (fresh c)) = Inl (62, e)"
    from lifespan_raised_at_62 [OF st l] have r: "r = Inl (62, e)" .
    with st have "fst (lifespan_startup w (fresh c)) = Inl (62, e)" by simp
    from startup_raised_at_62 [OF gs this] st r whole failed
    show "e = ValueError (''unknown events type: '' @ events_type (events app))
          \<and> \<not> isl (setup_db w (store app))
          \<and> filter is_SetupDb (trace (snd (lifespan w (fresh c)))) = [SetupDb (store app)]
          \<and> filter is_EngineDispose (trace (snd (lifespan w (fresh c)))) = []"
      by simp
  qed
  have second: "isl (fst (lifespan_startup w (fresh c))) \<longrightarrow>
            filter is_EngineDispose (trace (snd (lifespan w (fresh c)))) = []"
    using failed st by simp
  have third: "filter is_EngineDispose (trace (snd (lifespan w (fresh c)))) \<noteq> [] \<longrightarrow>
            \<not> isl (fst (lifespan_startup w (fresh c))) \<and> serving w = None"
  proof
    assume d: "filter is_EngineDispose (trace (snd (lifespan w (fresh c)))) \<noteq> []"
    from d failed have "\<not> isl r" by blast
    moreover from d thrown have "serving w = None" by blast
    ultimately show "\<not> isl (fst (lifespan_startup w (fresh c))) \<and> serving w = None"
      using st by simp
  qed
  from first second third show ?thesis by blast
qed

section \<open>Concrete runs\<close>

text \<open>
  The statements above at concrete worlds: the world in which everything succeeds and
  the listener ends by cancellation, the worlds in which the listener had returned or
  had raised before shutdown, the world without a notification descriptor, and the
  world whose settings name the event-bus kind \<open>kafka\<close>.
\<close>

lemma get_settings_world_ok:
  "get_settings world_ok (fresh None)
     = (Inr settings_ok, \<lparr>settings_cache = Some settings_ok, trace = [ConstructAppSettings]\<rparr>)"
  by (simp add: get_settings_def run_simps fresh_def world_ok_def)

lemma get_settings_world_with:
  "get_settings (world_with settings) (fresh None)
     = (Inr settings, \<lparr>settings_cache = Some settings, trace = [ConstructAppSettings]\<rparr>)"
  by (simp add: get_settings_def run_simps fresh_def world_with_def world_ok_def)

lemma lifespan_startup_world_ok:
  "lifespan_startup world_ok (fresh None)
     = (Inr \<lparr>local_app_settings = settings_ok,
             local_mqtt_listener_task =
               Task (listen_to_mqtt (MqttClient 1) new_state_ring_buffer
                       (Partial_insert_summary (Engine 1) True)),
             local_engine = Engine 1,
             yielded = \<lparr>state_ring_buffer = new_state_ring_buffer,
                         loaded_models = [''chat''], database_engine = Engine 1\<rparr>\<rparr>,
        snd (lifespan_startup world_ok (fresh None)))"
  by (simp add: eval_simps world_simps)

lemma lifespan_startup_listener_returned:
  "lifespan_startup world_listener_returned (fresh None)
     = (Inr \<lparr>local_app_settings = settings_ok,
             local_mqtt_listener_task =
               Task (listen_to_mqtt (MqttClient 1) new_state_ring_buffer
                       (Partial_insert_summary (Engine 1) True)),
             local_engine = Engine 1,
             yielded = \<lparr>state_ring_buffer = new_state_ring_buffer,
                         loaded_models = [''chat''], database_engine = Engine 1\<rparr>\<rparr>,
        snd (lifespan_startup world_listener_returned (fresh None)))"
  by (simp add: eval_simps world_simps)

lemma lifespan_startup_listener_crashed:
  "lifespan_startup world_listener_crashed (fresh None)
     = (Inr \<lparr>local_app_settings = settings_ok,
             local_mqtt_listener_task =
               Task (listen_to_mqtt (MqttClient 1) new_state_ring_buffer
                       (Partial_insert_summary (Engine 1) True)),
             local_engine = Engine 1,
             yielded = \<lparr>state_ring_buffer = new_state_ring_buffer,
                         loaded_models = [''chat''], database_engine = Engine 1\<rparr>\<rparr>,
        snd (lifespan_startup world_listener_crashed (fresh None)))"
  by (simp add: eval_simps world_simps)

theorem shutdown_cancels_awaits_disposes_witness:
  "serving world_ok = None
   \<and> await_task world_ok (Task (listen_to_mqtt (MqttClient 1) new_state_ring_buffer
                       (Partial_insert_summary (Engine 1) True))) = Inl CancelledError
   \<and> engine_dispose world_ok (Engine 1) = Inr ()
   \<and> fst (lifespan world_ok (fresh None)) = Inr ()
   \<and> trace (snd (lifespan world_ok (fresh None)))
       = trace (snd (lifespan_startup world_ok (fresh None)))
         @ [TaskCancel (Task (listen_to_mqtt (MqttClient 1) new_state_ring_buffer
                       (Partial_insert_summary (Engine 1) True))),
            TaskAwait (Task (listen_to_mqtt (MqttClient 1) new_state_ring_buffer
                       (Partial_insert_summary (Engine 1) True))),
            EngineDispose (Engine 1)]
   \<and> serving world_listener_returned = None
   \<and> await_task world_listener_returned
        (Task (listen_to_mqtt (MqttClient 1) new_state_ring_buffer
                 (Partial_insert_summary (Engine 1) True))) = Inr ()
   \<and> fst (lifespan world_listener_returned (fresh None)) = Inr ()
   \<and> trace (snd (lifespan world_listener_returned (fresh None)))
       = trace (snd (lifespan_startup world_listener_returned (fresh None)))
         @ [TaskCancel (Task (listen_to_mqtt (MqttClient 1) new_state_ring_buffer
                       (Partial_insert_summary (Engine 1) True))),
            TaskAwait (Task (listen_to_mqtt (MqttClient 1) new_state_ring_buffer
                       (Partial_insert_summary (Engine 1) True))),
            EngineDispose (Engine 1)]
   \<and> serving world_listener_crashed = None
   \<and> await_task world_listener_crashed
        (Task (listen_to_mqtt (MqttClient 1) new_state_ring_buffer
                 (Partial_insert_summary (Engine 1) True))) = Inl (Exception ''connection lost'')
   \<and> Exception ''connection lost'' \<noteq> CancelledError
   \<and> fst (lifespan world_listener_crashed (fresh None)) = Inl (89, Exception ''connection lost'')
   \<and> trace (snd (lifespan world_listener_crashed (fresh None)))
       = trace (snd (lifespan_startup world_listener_crashed (fresh None)))
         @ [TaskCancel (Task (listen_to_mqtt (MqttClient 1) new_state_ring_buffer
                       (Partial_insert_summary (Engine 1) True))),
            TaskAwait (Task (listen_to_mqtt (MqttClient 1) new_state_ring_buffer
                       (Partial_insert_summary (Engine 1) True)))]"
proof -
  let ?t = "Task (listen_to_mqtt (MqttClient 1) new_state_ring_buffer
                    (Partial_insert_summary (Engine 1) True))"
  have resumed: "serving world_ok = None"
    and cancelled: "await_task world_ok ?t = Inl CancelledError"
    and disposed: "engine_dispose world_ok (Engine 1) = Inr ()"
    by (simp_all add: world_ok_def)
  have resumed': "serving world_listener_returned = None"
    and returned: "await_task world_listener_returned ?t = Inr ()"
    and disposed': "engine_dispose world_listener_returned (Engine 1) = Inr ()"
    by (simp_all add: world_simps)
  have resumed'': "serving world_listener_crashed = None"
    and crashed: "await_task world_listener_crashed ?t = Inl (Exception ''connection lost'')"
    and other: "Exception ''connection lost'' \<noteq> CancelledError"
    by (simp_all add: world_simps)
  from shutdown_cancels_awaits_disposes
         [OF lifespan_startup_world_ok resumed, of "Exception ''connection lost''"]
       cancelled disposed
  have a: "fst (lifespan world_ok (fresh None)) = Inr ()
   \<and> trace (snd (lifespan world_ok (fresh None)))
       = trace (snd (lifespan_startup world_ok (fresh None)))
         @ [TaskCancel ?t, TaskAwait ?t, EngineDispose (Engine 1)]"
    by simp
  from shutdown_cancels_awaits_disposes
         [OF lifespan_startup_listener_returned resumed', of "Exception ''connection lost''"]
       returned disposed'
  have b: "fst (lifespan world_listener_returned (fresh None)) = Inr ()
   \<and> trace (snd (lifespan world_listener_returned (fresh None)))
       = trace (snd (lifespan_startup world_listener_returned (fresh None)))
         @ [TaskCancel ?t, TaskAwait ?t, EngineDispose (Engine 1)]"
    by simp
  from shutdown_cancels_awaits_disposes
         [OF lifespan_startup_listener_crashed resumed'', of "Exception ''connection lost''"]
       crashed other
  have c: "fst (lifespan world_listener_crashed (fresh None)) = Inl (89, Exception ''connection lost'')
   \<and> trace (snd (lifespan world_listener_crashed (fresh None)))
       = trace (snd (lifespan_startup world_listener_crashed (fresh None)))
         @ [TaskCancel ?t, TaskAwait ?t]"
    by simp
  from resumed cancelled disposed a resumed' returned b resumed'' crashed other c
  show ?thesis by blast
qed

theorem readiness_signal_witness:
  "fst (lifespan_startup world_ok (fresh None))
     = Inr \<lparr>local_app_settings = settings_ok,
             local_mqtt_listener_task =
               Task (listen_to_mqtt (MqttClient 1) new_state_ring_buffer
                       (Partial_insert_summary (Engine 1) True)),
             local_engine = Engine 1,
             yielded = \<lparr>state_ring_buffer = new_state_ring_buffer,
                         loaded_models = [''chat''], database_engine = Engine 1\<rparr>\<rparr>
   \<and> notify_fd settings_ok = Some 3
   \<and> filter is_os_action (trace (snd (lifespan_startup world_ok (fresh None))))
       = [OsWrite 3 [CHR 0x0A], OsClose 3]
   \<and> filter is_startup_call
        (takeWhile (\<lambda>a. \<not> is_OsWrite a) (trace (snd (lifespan_startup world_ok (fresh None)))))
       = [CreateTask (Task (poll_registry 10)), SetupDb \<lparr>store_type = ''psql''\<rparr>,
          SetupMqttClient \<lparr>events_type = ''mqtt''\<rparr>,
          CreateTask (Task (listen_to_mqtt (MqttClient 1) new_state_ring_buffer
                       (Partial_insert_summary (Engine 1) True))),
          LogSystemModels False, ConnectToMlflow settings_ok]
   \<and> filter is_OsWrite (trace (snd (lifespan_startup world_ok (fresh None)))) \<noteq> []
   \<and> \<not> truthy (notify_fd settings_no_fd)
   \<and> \<not> isl (fst (lifespan_startup (world_with settings_no_fd) (fresh None)))
   \<and> filter is_os_action (trace (snd (lifespan_startup (world_with settings_no_fd) (fresh None))))
       = []"
proof -
  let ?fr = "\<lparr>local_app_settings = settings_ok,
             local_mqtt_listener_task =
               Task (listen_to_mqtt (MqttClient 1) new_state_ring_buffer
                       (Partial_insert_summary (Engine 1) True)),
             local_engine = Engine 1,
             yielded = \<lparr>state_ring_buffer = new_state_ring_buffer,
                         loaded_models = [''chat''], database_engine = Engine 1\<rparr>\<rparr>"
  let ?fr' = "\<lparr>local_app_settings = settings_no_fd,
             local_mqtt_listener_task =
               Task (listen_to_mqtt (MqttClient 1) new_state_ring_buffer
                       (Partial_insert_summary (Engine 1) True)),
             local_engine = Engine 1,
             yielded = \<lparr>state_ring_buffer = new_state_ring_buffer,
                         loaded_models = [''chat''], database_engine = Engine 1\<rparr>\<rparr>"
  have ok: "fst (lifespan_startup world_ok (fresh None)) = Inr ?fr"
    by (simp add: eval_simps world_simps)
  have fd: "notify_fd settings_ok = Some 3"
    by (simp add: settings_ok_def)
  have wrote: "filter is_OsWrite (trace (snd (lifespan_startup world_ok (fresh None)))) \<noteq> []"
    by (simp add: eval_simps world_simps)
  have silent: "\<not> truthy (notify_fd settings_no_fd) \<and> store_type (store settings_no_fd) = ''psql''
          \<and> \<not> isl (setup_db (world_with settings_no_fd) (store settings_no_fd))
          \<and> events_type (events settings_no_fd) = ''mqtt''
          \<and> \<not> isl (setup_mqtt_client (world_with settings_no_fd) (events settings_no_fd))
          \<and> \<not> isl (log_system_models (world_with settings_no_fd) (force_publish_models settings_no_fd))
          \<and> \<not> isl (connect_to_mlflow (world_with settings_no_fd) settings_no_fd)"
    by (simp add: world_simps truthy_def)
  have ok': "fst (lifespan_startup (world_with settings_no_fd) (fresh None)) = Inr ?fr'"
    by (simp add: eval_simps world_simps)
  from readiness_signal [OF get_settings_world_ok, of ?fr] ok fd wrote
  have a: "filter is_os_action (trace (snd (lifespan_startup world_ok (fresh None))))
       = [OsWrite 3 [CHR 0x0A], OsClose 3]
   \<and> filter is_startup_call
        (takeWhile (\<lambda>a. \<not> is_OsWrite a) (trace (snd (lifespan_startup world_ok (fresh None)))))
       = [CreateTask (Task (poll_registry 10)), SetupDb \<lparr>store_type = ''psql''\<rparr>,
          SetupMqttClient \<lparr>events_type = ''mqtt''\<rparr>,
          CreateTask (Task (listen_to_mqtt (MqttClient 1) new_state_ring_buffer
                       (Partial_insert_summary (Engine 1) True))),
          LogSystemModels False, ConnectToMlflow settings_ok]"
    by (simp add: settings_ok_def)
  from readiness_signal [OF get_settings_world_with, of settings_no_fd ?fr'] ok' silent
  have b: "\<not> isl (fst (lifespan_startup (world_with settings_no_fd) (fresh None)))
   \<and> filter is_os_action (trace (snd (lifespan_startup (world_with settings_no_fd) (fresh None))))
       = []"
    by (simp add: settings_no_fd_def)
  from ok fd wrote a b silent show ?thesis by blast
qed

theorem poller_is_fire_and_forget_witness:
  "fst (lifespan_startup world_ok (fresh None))
     = Inr \<lparr>local_app_settings = settings_ok,
             local_mqtt_listener_task =
               Task (listen_to_mqtt (MqttClient 1) new_state_ring_buffer
                       (Partial_insert_summary (Engine 1) True)),
             local_engine = Engine 1,
             yielded = \<lparr>state_ring_buffer = new_state_ring_buffer,
                         loaded_models = [''chat''], database_engine = Engine 1\<rparr>\<rparr>
   \<and> serving world_ok = None
   \<and> filter on_poller (trace (snd (lifespan world_ok (fresh None))))
       = [CreateTask (Task (poll_registry 10))]
   \<and> filter is_cancel_or_await (trace (snd (lifespan world_ok (fresh None))))
       = [TaskCancel (Task (listen_to_mqtt (MqttClient 1) new_state_ring_buffer
                       (Partial_insert_summary (Engine 1) True))),
          TaskAwait (Task (listen_to_mqtt (MqttClient 1) new_state_ring_buffer
                       (Partial_insert_summary (Engine 1) True)))]"
proof -
  let ?fr = "\<lparr>local_app_settings = settings_ok,
             local_mqtt_listener_task =
               Task (listen_to_mqtt (MqttClient 1) new_state_ring_buffer
                       (Partial_insert_summary (Engine 1) True)),
             local_engine = Engine 1,
             yielded = \<lparr>state_ring_buffer = new_state_ring_buffer,
                         loaded_models = [''chat''], database_engine = Engine 1\<rparr>\<rparr>"
  have ok: "fst (lifespan_startup world_ok (fresh None)) = Inr ?fr"
    by (simp add: eval_simps world_simps)
  have resumed: "serving world_ok = None"
    by (simp add: world_ok_def)
  from poller_is_fire_and_forget [OF get_settings_world_ok, of ?fr] ok resumed
  show ?thesis by simp
qed

theorem startup_failure_leaves_engine_undisposed_witness:
  "fst (lifespan (world_with settings_kafka) (fresh None))
     = Inl (62, ValueError ''unknown events type: kafka'')
   \<and> isl (fst (lifespan_startup (world_with settings_kafka) (fresh None)))
   \<and> setup_db (world_with settings_kafka) (store settings_kafka) = Inr (Engine 1)
   \<and> filter is_SetupDb (trace (snd (lifespan (world_with settings_kafka) (fresh None))))
       = [SetupDb \<lparr>store_type = ''psql''\<rparr>]
   \<and> filter is_EngineDispose (trace (snd (lifespan (world_with settings_kafka) (fresh None))))
       = []
   \<and> filter is_EngineDispose (trace (snd (lifespan world_ok (fresh None))))
       = [EngineDispose (Engine 1)]
   \<and> \<not> isl (fst (lifespan_startup world_ok (fresh None)))
   \<and> serving world_ok = None"
proof -
  have failed: "fst (lifespan (world_with settings_kafka) (fresh None))
     = Inl (62, ValueError ''unknown events type: kafka'')"
    by (simp add: eval_simps world_simps)
  have failed': "isl (fst (lifespan_startup (world_with settings_kafka) (fresh None)))"
    by (simp add: eval_simps world_simps)
  have db: "setup_db (world_with settings_kafka) (store settings_kafka) = Inr (Engine 1)"
    by (simp add: world_simps)
  have disposed: "filter is_EngineDispose (trace (snd (lifespan world_ok (fresh None))))
       = [EngineDispose (Engine 1)]"
    by (simp add: eval_simps world_simps)
  then have nonempty: "filter is_EngineDispose (trace (snd (lifespan world_ok (fresh None)))) \<noteq> []"
    by simp
  from startup_failure_leaves_engine_undisposed
         [OF get_settings_world_with, of settings_kafka "ValueError ''unknown events type: kafka''"]
       failed failed'
  have a: "filter is_SetupDb (trace (snd (lifespan (world_with settings_kafka) (fresh None))))
       = [SetupDb \<lparr>store_type = ''psql''\<rparr>]
   \<and> filter is_EngineDispose (trace (snd (lifespan (world_with settings_kafka) (fresh None))))
       = []"
    by (simp add: settings_kafka_def settings_ok_def)
  from startup_failure_leaves_engine_undisposed [OF get_settings_world_ok, of "ValueError ''unknown events type: kafka''"] nonempty
  have b: "\<not> isl (fst (lifespan_startup world_ok (fresh None))) \<and> serving world_ok = None"
    by blast
  from failed failed' db disposed a b show ?thesis by blast
qed

end
